theory Spec2Isabelle
  imports Main
begin

section \<open>Exceptions\<close>

text \<open>
  The JavaScript exception values that occur in the sources: the plain
  \<^verbatim>\<open>new Error(message)\<close> thrown by the Google adapter, and the
  \<^verbatim>\<open>new HttpError(status, message)\<close> that the documented signup hooks throw.
  A rejected promise is \<open>Inl\<close> of such a value, a resolved one is \<open>Inr\<close> of its result.
\<close>

datatype error = Error string | HttpError nat string

section \<open>The Google provider: getGoogleProfile\<close>

text \<open>
  The body of the userinfo response as the source types it,
  \<^verbatim>\<open>{ sub?: string }\<close>: an object with an optional string field \<open>sub\<close> and any
  further fields (the extension part of the record).
\<close>

record UserInfo =
  sub :: "string option"

text \<open>JavaScript truthiness of a value of type \<^verbatim>\<open>string | undefined\<close>:
  \<^verbatim>\<open>undefined\<close> and the empty string are falsy, every other string is truthy.\<close>

definition truthy :: "string option \<Rightarrow> bool" where
  "truthy v = (case v of None \<Rightarrow> False | Some s \<Rightarrow> s \<noteq> [])"

text \<open>
  \<^verbatim>\<open>getGoogleProfile(accessToken)\<close>. The two awaited calls, \<^verbatim>\<open>fetch(url, {headers})\<close>
  and \<^verbatim>\<open>response.json()\<close>, are parameters: each either rejects or resolves.
  The returned object \<^verbatim>\<open>{ providerProfile, providerUserId }\<close> is the pair
  \<open>(providerProfile, providerUserId)\<close>.
\<close>

definition getGoogleProfile ::
  "(string \<Rightarrow> (string \<times> string) list \<Rightarrow> error + 'resp) \<Rightarrow>
   ('resp \<Rightarrow> error + 'a UserInfo_scheme) \<Rightarrow>
   string \<Rightarrow> error + ('a UserInfo_scheme \<times> string)"
where
  "getGoogleProfile fetch json accessToken =
     (case fetch ''https://openidconnect.googleapis.com/v1/userinfo''
                 [(''Authorization'', ''Bearer '' @ accessToken)] of
        Inl e \<Rightarrow> Inl e
      | Inr response \<Rightarrow>
          (case json response of
             Inl e \<Rightarrow> Inl e
           | Inr providerProfile \<Rightarrow>
               if \<not> truthy (sub providerProfile)
               then Inl (Error ''Invalid profile'')
               else Inr (providerProfile, the (sub providerProfile))))"

section \<open>Data of the OAuth completion step\<close>

record ProviderId =
  providerName :: string
  providerUserId :: string

text \<open>The fields of \<^verbatim>\<open>ProviderConfig\<close> that are data (\<^verbatim>\<open>createRouter\<close> is not used here).
  A field \<^verbatim>\<open>id\<close> is written \<open>id'\<close>, since \<open>id\<close> is the identity function of HOL;
  the provider's is \<open>ProviderConfig.id'\<close>, the one of an \<^verbatim>\<open>Auth\<close> row below is \<open>id'\<close>.\<close>

record ProviderConfig =
  id' :: string
  displayName :: string

record OAuthState =
  state :: string

text \<open>The \<^verbatim>\<open>oauth\<close> object handed to the after-signup hook.\<close>

record OAuthFields =
  accessToken :: string
  uniqueRequestId :: string

text \<open>An \<^verbatim>\<open>Auth\<close> row; the source reads only its \<^verbatim>\<open>id\<close>. A row loaded or created
  together with its \<^verbatim>\<open>auth\<close> relation is \<open>'row WithAuth\<close>: \<open>row\<close> stands for the
  entity's own columns.\<close>

record Auth =
  id' :: string

record 'row WithAuth =
  row :: 'row
  auth :: Auth

text \<open>The argument \<^verbatim>\<open>{ profile: providerProfile }\<close> of \<^verbatim>\<open>validateAndGetUserFields\<close>.\<close>

record 'p ProfileData =
  profile :: 'p

section \<open>Collaborators and the call trace\<close>

text \<open>
  Every awaited collaborator is an effect on the world (database, one-time code store and
  whatever the hooks touch): from the world before the call to the promise's outcome and
  the world after it. A rejection leaves a world too, since nothing undoes what a call did
  before it failed.
\<close>

type_synonym ('w, 'a) effect = "'w \<Rightarrow> (error + 'a) \<times> 'w"

text \<open>
  The imports of \<^verbatim>\<open>user.ts\<close>, none of which is defined in the sources at hand, as
  parameters. \<open>createProviderId\<close> and \<open>getRedirectUriForOneTimeCode\<close> are called
  without \<^verbatim>\<open>await\<close> and are functions of their arguments; URLs are strings.
\<close>

record ('r, 'p, 'f, 'uf, 'ai, 'u, 'w) deps =
  createProviderId :: "string \<Rightarrow> string \<Rightarrow> ProviderId"
  findUnique :: "ProviderId \<Rightarrow> ('w, 'ai WithAuth option) effect"
  validateAndGetUserFields :: "'p ProfileData \<Rightarrow> 'f option \<Rightarrow> ('w, 'uf) effect"
  sanitizeAndSerializeProviderData :: "(string \<times> string) list \<Rightarrow> ('w, string) effect"
  onBeforeSignupHook :: "'r \<Rightarrow> ProviderId \<Rightarrow> ('w, unit) effect"
  createUser :: "ProviderId \<Rightarrow> string \<Rightarrow> 'uf \<Rightarrow> ('w, 'u WithAuth) effect"
  onAfterSignupHook :: "'r \<Rightarrow> ProviderId \<Rightarrow> 'u WithAuth \<Rightarrow> OAuthFields \<Rightarrow> ('w, unit) effect"
  createToken :: "string \<Rightarrow> ('w, string) effect"
  getRedirectUriForOneTimeCode :: "string \<Rightarrow> string"

text \<open>A call of a collaborator with its arguments, and what a resolved promise carries.\<close>

datatype ('r, 'p, 'f, 'uf, 'u) call =
    Call_findUnique ProviderId
  | Call_validateAndGetUserFields "'p ProfileData" "'f option"
  | Call_sanitizeAndSerializeProviderData "(string \<times> string) list"
  | Call_onBeforeSignupHook 'r ProviderId
  | Call_createUser ProviderId string 'uf
  | Call_onAfterSignupHook 'r ProviderId "'u WithAuth" OAuthFields
  | Call_createToken string

datatype ('uf, 'ai, 'u) retval =
    Ret_authIdentity "'ai WithAuth option"
  | Ret_userFields 'uf
  | Ret_providerData string
  | Ret_void
  | Ret_user "'u WithAuth"
  | Ret_oneTimeCode string

text \<open>The trace of a run: a collaborator is invoked, and later its promise resolves or
  rejects.\<close>

datatype ('r, 'p, 'f, 'uf, 'ai, 'u) event =
    Invoke "('r, 'p, 'f, 'uf, 'u) call"
  | Resolve "('uf, 'ai, 'u) retval"
  | Reject error

record ('w, 'ev) run =
  world :: 'w
  trace :: "'ev list"

definition start :: "'w \<Rightarrow> ('w, 'ev) run" where
  "start w = \<lparr>world = w, trace = []\<rparr>"

text \<open>\<open>invoke c wrap act\<close> runs the collaborator \<open>act\<close> on the current world and records
  the call \<open>c\<close> and its outcome.\<close>

definition invoke ::
  "('r, 'p, 'f, 'uf, 'u) call \<Rightarrow> ('a \<Rightarrow> ('uf, 'ai, 'u) retval) \<Rightarrow> ('w, 'a) effect \<Rightarrow>
   (('w, ('r, 'p, 'f, 'uf, 'ai, 'u) event) run, 'a) effect"
where
  "invoke c wrap act s =
     (case act (world s) of
        (Inl e, w') \<Rightarrow> (Inl e, \<lparr>world = w', trace = trace s @ [Invoke c, Reject e]\<rparr>)
      | (Inr v, w') \<Rightarrow> (Inr v, \<lparr>world = w', trace = trace s @ [Invoke c, Resolve (wrap v)]\<rparr>))"

text \<open>\<^verbatim>\<open>const x = await m; k(x)\<close>: a rejection of \<open>m\<close> is thrown on and \<open>k\<close> never runs.\<close>

definition await :: "('s, 'a) effect \<Rightarrow> ('a \<Rightarrow> ('s, 'b) effect) \<Rightarrow> ('s, 'b) effect" where
  "await m k s = (case m s of (Inl e, s') \<Rightarrow> (Inl e, s') | (Inr v, s') \<Rightarrow> k v s')"

definition return :: "'a \<Rightarrow> ('s, 'a) effect" where
  "return v s = (Inr v, s)"

section \<open>user.ts\<close>

text \<open>
  The two functions of \<^verbatim>\<open>user.ts\<close>, statement by statement. Each takes one object in the
  source; its fields are the arguments here, in the order of the source's destructuring
  (\<open>accessToken'\<close> and \<open>providerUserId'\<close> are primed, the plain names being record
  fields). \<^verbatim>\<open>if (existingAuthIdentity)\<close> tests the row that \<^verbatim>\<open>findUnique\<close> resolved with
  against \<^verbatim>\<open>null\<close>.
\<close>

definition getAuthIdFromProviderDetails ::
  "('r, 'p, 'f, 'uf, 'ai, 'u, 'w) deps \<Rightarrow> ProviderId \<Rightarrow> 'p \<Rightarrow> 'f option \<Rightarrow> 'r \<Rightarrow> string \<Rightarrow>
   OAuthState \<Rightarrow> (('w, ('r, 'p, 'f, 'uf, 'ai, 'u) event) run, string) effect"
where
  "getAuthIdFromProviderDetails env providerId providerProfile userSignupFields req
       accessToken' oAuthState =
     await (invoke (Call_findUnique providerId) Ret_authIdentity (findUnique env providerId))
       (\<lambda>existingAuthIdentity.
     case existingAuthIdentity of
       Some found \<Rightarrow> return (id' (auth found))
     | None \<Rightarrow>
         await (invoke (Call_validateAndGetUserFields \<lparr>profile = providerProfile\<rparr> userSignupFields)
                  Ret_userFields
                  (validateAndGetUserFields env \<lparr>profile = providerProfile\<rparr> userSignupFields))
           (\<lambda>userFields.
         await (invoke (Call_sanitizeAndSerializeProviderData []) Ret_providerData
                  (sanitizeAndSerializeProviderData env []))
           (\<lambda>providerData.
         await (invoke (Call_onBeforeSignupHook req providerId) (\<lambda>_. Ret_void)
                  (onBeforeSignupHook env req providerId))
           (\<lambda>_.
         await (invoke (Call_createUser providerId providerData userFields) Ret_user
                  (createUser env providerId providerData userFields))
           (\<lambda>user.
         await (invoke (Call_onAfterSignupHook req providerId user
                          \<lparr>accessToken = accessToken', uniqueRequestId = state oAuthState\<rparr>)
                  (\<lambda>_. Ret_void)
                  (onAfterSignupHook env req providerId user
                     \<lparr>accessToken = accessToken', uniqueRequestId = state oAuthState\<rparr>))
           (\<lambda>_.
         return (id' (auth user))))))))"

definition finishOAuthFlowAndGetRedirectUri ::
  "('r, 'p, 'f, 'uf, 'ai, 'u, 'w) deps \<Rightarrow> ProviderConfig \<Rightarrow> 'p \<Rightarrow> string \<Rightarrow> 'f option \<Rightarrow> 'r \<Rightarrow>
   string \<Rightarrow> OAuthState \<Rightarrow> (('w, ('r, 'p, 'f, 'uf, 'ai, 'u) event) run, string) effect"
where
  "finishOAuthFlowAndGetRedirectUri env provider providerProfile providerUserId' userSignupFields
       req accessToken' oAuthState =
     (let providerId = createProviderId env (ProviderConfig.id' provider) providerUserId' in
      await (getAuthIdFromProviderDetails env providerId providerProfile userSignupFields req
               accessToken' oAuthState)
        (\<lambda>authId.
      await (invoke (Call_createToken authId) Ret_oneTimeCode (createToken env authId))
        (\<lambda>oneTimeCode.
      return (getRedirectUriForOneTimeCode env oneTimeCode))))"

section \<open>Reading a trace\<close>

fun calls :: "('r, 'p, 'f, 'uf, 'ai, 'u) event list \<Rightarrow> ('r, 'p, 'f, 'uf, 'u) call list" where
  "calls [] = []"
| "calls (Invoke c # es) = c # calls es"
| "calls (Resolve v # es) = calls es"
| "calls (Reject e # es) = calls es"

fun issuedCodes :: "('r, 'p, 'f, 'uf, 'ai, 'u) event list \<Rightarrow> string list" where
  "issuedCodes [] = []"
| "issuedCodes (Resolve (Ret_oneTimeCode code) # es) = code # issuedCodes es"
| "issuedCodes (e # es) = issuedCodes es"

fun isOnBeforeSignupHook :: "('r, 'p, 'f, 'uf, 'u) call \<Rightarrow> bool" where
  "isOnBeforeSignupHook (Call_onBeforeSignupHook r p) = True"
| "isOnBeforeSignupHook c = False"

fun isCreateUser :: "('r, 'p, 'f, 'uf, 'u) call \<Rightarrow> bool" where
  "isCreateUser (Call_createUser p d f) = True"
| "isCreateUser c = False"

fun isOnAfterSignupHook :: "('r, 'p, 'f, 'uf, 'u) call \<Rightarrow> bool" where
  "isOnAfterSignupHook (Call_onAfterSignupHook r p u oa) = True"
| "isOnAfterSignupHook c = False"

fun isCreateToken :: "('r, 'p, 'f, 'uf, 'u) call \<Rightarrow> bool" where
  "isCreateToken (Call_createToken a) = True"
| "isCreateToken c = False"

section \<open>An in-memory instance of the collaborators\<close>

text \<open>
  A small concrete instance of the collaborators, on which the theorems below are
  exercised: identities are rows keyed by provider id, the before-signup hook rejects one
  banned address (as the documented hook does), the after-signup hook needs a mailer, and
  one-time codes are drawn from a supply of fresh tokens.
\<close>

record Store =
  identities :: "(ProviderId \<times> string) list"
  mailerUp :: bool
  codeSupply :: "string list"
  codes :: "(string \<times> string) list"

definition memCreateProviderId :: "string \<Rightarrow> string \<Rightarrow> ProviderId" where
  "memCreateProviderId name uid = \<lparr>providerName = name, providerUserId = uid\<rparr>"

definition memFindUnique :: "ProviderId \<Rightarrow> (Store, ProviderId WithAuth option) effect" where
  "memFindUnique pid w =
     (Inr (case map_of (identities w) pid of
             None \<Rightarrow> None
           | Some a \<Rightarrow> Some \<lparr>row = pid, auth = \<lparr>id' = a\<rparr>\<rparr>), w)"

definition memValidateAndGetUserFields ::
  "UserInfo ProfileData \<Rightarrow> unit option \<Rightarrow> (Store, unit) effect" where
  "memValidateAndGetUserFields d f w = (Inr (), w)"

definition memSanitizeAndSerializeProviderData ::
  "(string \<times> string) list \<Rightarrow> (Store, string) effect" where
  "memSanitizeAndSerializeProviderData kvs w = (Inr ''{}'', w)"

definition bannedProviderId :: ProviderId where
  "bannedProviderId = \<lparr>providerName = ''email'', providerUserId = ''banned@example.com''\<rparr>"

definition memOnBeforeSignupHook :: "string \<Rightarrow> ProviderId \<Rightarrow> (Store, unit) effect" where
  "memOnBeforeSignupHook req pid w =
     (if pid = bannedProviderId then Inl (HttpError 403 ''This email is not allowed'')
      else Inr (), w)"

definition memCreateUser :: "ProviderId \<Rightarrow> string \<Rightarrow> unit \<Rightarrow> (Store, nat WithAuth) effect" where
  "memCreateUser pid pd uf w =
     (case map_of (identities w) pid of
        Some a \<Rightarrow> (Inl (Error ''Unique constraint failed''), w)
      | None \<Rightarrow>
          (Inr \<lparr>row = Suc (length (identities w)),
                auth = \<lparr>id' = ''auth-'' @ providerUserId pid\<rparr>\<rparr>,
           w\<lparr>identities := (pid, ''auth-'' @ providerUserId pid) # identities w\<rparr>))"

definition memOnAfterSignupHook ::
  "string \<Rightarrow> ProviderId \<Rightarrow> nat WithAuth \<Rightarrow> OAuthFields \<Rightarrow> (Store, unit) effect" where
  "memOnAfterSignupHook req pid u oa w =
     (if mailerUp w then Inr () else Inl (Error ''mail server down''), w)"

definition memCreateToken :: "string \<Rightarrow> (Store, string) effect" where
  "memCreateToken a w =
     (case codeSupply w of
        [] \<Rightarrow> (Inl (Error ''no code available''), w)
      | c # cs \<Rightarrow> (Inr c, w\<lparr>codeSupply := cs, codes := (c, a) # codes w\<rparr>))"

definition memGetRedirectUriForOneTimeCode :: "string \<Rightarrow> string" where
  "memGetRedirectUriForOneTimeCode c = ''http://localhost:3000/oauth/callback?code='' @ c"

definition memDeps ::
  "(string, UserInfo, unit, unit, ProviderId, nat, Store) deps" where
  "memDeps =
     \<lparr>createProviderId = memCreateProviderId,
      findUnique = memFindUnique,
      validateAndGetUserFields = memValidateAndGetUserFields,
      sanitizeAndSerializeProviderData = memSanitizeAndSerializeProviderData,
      onBeforeSignupHook = memOnBeforeSignupHook,
      createUser = memCreateUser,
      onAfterSignupHook = memOnAfterSignupHook,
      createToken = memCreateToken,
      getRedirectUriForOneTimeCode = memGetRedirectUriForOneTimeCode\<rparr>"

definition google :: ProviderConfig where
  "google = \<lparr>ProviderConfig.id' = ''google'', displayName = ''Google''\<rparr>"

definition emailProvider :: ProviderConfig where
  "emailProvider = \<lparr>ProviderConfig.id' = ''email'', displayName = ''Email''\<rparr>"

definition gid9 :: ProviderId where
  "gid9 = \<lparr>providerName = ''google'', providerUserId = ''gid-9''\<rparr>"

definition freshStore :: Store where
  "freshStore =
     \<lparr>identities = [], mailerUp = True, codeSupply = [''otc-1'', ''otc-2''], codes = []\<rparr>"

definition knownStore :: Store where
  "knownStore =
     \<lparr>identities = [(gid9, ''auth-1'')], mailerUp = True,
      codeSupply = [''otc-1'', ''otc-2''], codes = []\<rparr>"

definition mailerDownStore :: Store where
  "mailerDownStore =
     \<lparr>identities = [], mailerUp = False, codeSupply = [''otc-1''], codes = []\<rparr>"

text \<open>A userinfo endpoint that answers with a given body, already parsed.\<close>

definition respondWith :: "'b \<Rightarrow> string \<Rightarrow> (string \<times> string) list \<Rightarrow> error + 'b" where
  "respondWith body url headers = Inr body"

definition parsed :: "'b \<Rightarrow> error + 'b" where
  "parsed body = Inr body"

definition emptySubBody :: UserInfo where
  "emptySubBody = \<lparr>sub = Some []\<rparr>"

definition gid9Body :: UserInfo where
  "gid9Body = \<lparr>sub = Some ''gid-9''\<rparr>"

section \<open>Unfolding the flow\<close>

lemmas flow_defs =
  finishOAuthFlowAndGetRedirectUri_def getAuthIdFromProviderDetails_def
  await_def invoke_def return_def start_def

lemmas memDeps_defs =
  memDeps_def memCreateProviderId_def memFindUnique_def memValidateAndGetUserFields_def
  memSanitizeAndSerializeProviderData_def memOnBeforeSignupHook_def bannedProviderId_def
  memCreateUser_def memOnAfterSignupHook_def memCreateToken_def
  memGetRedirectUriForOneTimeCode_def google_def gid9_def
  freshStore_def knownStore_def gid9Body_def

text \<open>A run that returns a URL took one of two paths, and its trace is that path's.\<close>

lemma finish_success_shape:
  assumes "finishOAuthFlowAndGetRedirectUri env provider p uid usf req tok st (start w)
             = (Inr url, s')"
  shows "(\<exists>found code. trace s' =
            [Invoke (Call_findUnique (createProviderId env (ProviderConfig.id' provider) uid)),
             Resolve (Ret_authIdentity (Some found)),
             Invoke (Call_createToken (id' (auth found))),
             Resolve (Ret_oneTimeCode code)] \<and> url = getRedirectUriForOneTimeCode env code)
       \<or> (\<exists>uf pd u code. trace s' =
            [Invoke (Call_findUnique (createProviderId env (ProviderConfig.id' provider) uid)),
             Resolve (Ret_authIdentity None),
             Invoke (Call_validateAndGetUserFields \<lparr>profile = p\<rparr> usf),
             Resolve (Ret_userFields uf),
             Invoke (Call_sanitizeAndSerializeProviderData []),
             Resolve (Ret_providerData pd),
             Invoke (Call_onBeforeSignupHook req (createProviderId env (ProviderConfig.id' provider) uid)),
             Resolve Ret_void,
             Invoke (Call_createUser (createProviderId env (ProviderConfig.id' provider) uid) pd uf),
             Resolve (Ret_user u),
             Invoke (Call_onAfterSignupHook req (createProviderId env (ProviderConfig.id' provider) uid) u
                \<lparr>accessToken = tok, uniqueRequestId = state st\<rparr>),
             Resolve Ret_void,
             Invoke (Call_createToken (id' (auth u))),
             Resolve (Ret_oneTimeCode code)] \<and> url = getRedirectUriForOneTimeCode env code)"
  using assms
  by (auto simp: flow_defs Let_def split: prod.splits sum.splits option.splits)

lemma finish_success_code:
  assumes "finishOAuthFlowAndGetRedirectUri env provider p uid usf req tok st (start w)
             = (Inr url, s')"
  shows "\<exists>code. issuedCodes (trace s') = [code] \<and> url = getRedirectUriForOneTimeCode env code"
  using finish_success_shape [OF assms]
  by (elim disjE exE conjE) simp_all

text \<open>A run state is its world and its trace.\<close>

lemma run_eqI: "world s = w \<Longrightarrow> trace s = t \<Longrightarrow> s = \<lparr>world = w, trace = t\<rparr>"
  by auto

text \<open>Concrete runs of the in-memory instance.\<close>

lemma mem_login_run:
  "finishOAuthFlowAndGetRedirectUri memDeps google gid9Body ''gid-9'' None
       ''/auth/google/callback'' ''ya29.tok'' \<lparr>state = ''s1''\<rparr> (start knownStore)
     = (Inr ''http://localhost:3000/oauth/callback?code=otc-1'',
        \<lparr>world = knownStore\<lparr>codeSupply := [''otc-2''], codes := [(''otc-1'', ''auth-1'')]\<rparr>,
         trace = [Invoke (Call_findUnique gid9),
                  Resolve (Ret_authIdentity (Some \<lparr>row = gid9, auth = \<lparr>id' = ''auth-1''\<rparr>\<rparr>)),
                  Invoke (Call_createToken ''auth-1''),
                  Resolve (Ret_oneTimeCode ''otc-1'')]\<rparr>)"
  by (simp add: flow_defs Let_def memDeps_defs)

lemma mem_signup_run:
  "finishOAuthFlowAndGetRedirectUri memDeps google gid9Body ''gid-9'' None
       ''/auth/google/callback'' ''other.tok'' \<lparr>state = ''s2''\<rparr> (start freshStore)
     = (Inr ''http://localhost:3000/oauth/callback?code=otc-1'',
        \<lparr>world = freshStore\<lparr>identities := [(gid9, ''auth-gid-9'')], codeSupply := [''otc-2''],
                   codes := [(''otc-1'', ''auth-gid-9'')]\<rparr>,
         trace = [Invoke (Call_findUnique gid9),
                  Resolve (Ret_authIdentity None),
                  Invoke (Call_validateAndGetUserFields \<lparr>profile = gid9Body\<rparr> None),
                  Resolve (Ret_userFields ()),
                  Invoke (Call_sanitizeAndSerializeProviderData []),
                  Resolve (Ret_providerData ''{}''),
                  Invoke (Call_onBeforeSignupHook ''/auth/google/callback'' gid9),
                  Resolve Ret_void,
                  Invoke (Call_createUser gid9 ''{}'' ()),
                  Resolve (Ret_user \<lparr>row = Suc 0, auth = \<lparr>id' = ''auth-gid-9''\<rparr>\<rparr>),
                  Invoke (Call_onAfterSignupHook ''/auth/google/callback'' gid9
                            \<lparr>row = Suc 0, auth = \<lparr>id' = ''auth-gid-9''\<rparr>\<rparr>
                            \<lparr>accessToken = ''other.tok'', uniqueRequestId = ''s2''\<rparr>),
                  Resolve Ret_void,
                  Invoke (Call_createToken ''auth-gid-9''),
                  Resolve (Ret_oneTimeCode ''otc-1'')]\<rparr>)"
  by (simp add: flow_defs Let_def memDeps_defs)

lemma mem_pid: "gid9 = createProviderId memDeps (ProviderConfig.id' google) ''gid-9''"
  by (simp add: memDeps_defs)

lemma mem_look:
  "findUnique memDeps gid9 w
     = (Inr (map_option (\<lambda>a. \<lparr>row = gid9, auth = \<lparr>id' = a\<rparr>\<rparr>) (map_of (identities w) gid9)), w)"
  by (simp add: memDeps_def memFindUnique_def split: option.splits)

lemma mem_look_fresh: "identities w = [] \<Longrightarrow> findUnique memDeps pid w = (Inr None, w)"
  by (simp add: memDeps_def memFindUnique_def)

lemma mem_valid: "validateAndGetUserFields memDeps d f w = (Inr (), w)"
  by (simp add: memDeps_def memValidateAndGetUserFields_def)

lemma mem_ser: "sanitizeAndSerializeProviderData memDeps kvs w = (Inr ''{}'', w)"
  by (simp add: memDeps_def memSanitizeAndSerializeProviderData_def)

lemma mem_hook: "onBeforeSignupHook memDeps req gid9 w = (Inr (), w)"
  by (simp add: memDeps_defs)

lemma mem_new:
  "identities w = [] \<Longrightarrow>
   createUser memDeps gid9 pd () w
     = (Inr \<lparr>row = Suc 0, auth = \<lparr>id' = ''auth-gid-9''\<rparr>\<rparr>,
        w\<lparr>identities := [(gid9, ''auth-gid-9'')]\<rparr>)"
  by (simp add: memDeps_def memCreateUser_def gid9_def)

lemma mem_after:
  "onAfterSignupHook memDeps req pid u oa w
     = (if mailerUp w then Inr () else Inl (Error ''mail server down''), w)"
  by (simp add: memDeps_def memOnAfterSignupHook_def)

section \<open>The claims\<close>

text \<open>
  Claim C1. A run of \<open>finishOAuthFlowAndGetRedirectUri\<close> returns a URL exactly when it
  resolved an auth id and \<open>tokenStore.createToken\<close>, applied to that id on the world the
  resolution left, issued a code: the final world is the one \<open>createToken\<close> left, the URL
  is \<open>getRedirectUriForOneTimeCode\<close> of that code, and the trace holds exactly one
  \<open>createToken\<close> call and one issued code. The id handed to \<open>createToken\<close> is the
  \<open>auth.id\<close> of the identity that \<open>findUnique\<close> found for the callback's provider id
  (login path, no user is created), or, when it found none and validation, serialisation
  and both hooks went through, the \<open>auth.id\<close> of the user that the single \<open>createUser\<close>
  call returned (signup path).
\<close>

theorem finish_issues_one_code_for_resolved_auth:
  "finishOAuthFlowAndGetRedirectUri env provider providerProfile providerUserId'
       userSignupFields req accessToken' oAuthState (start w) = (Inr url, s')
   \<longleftrightarrow>
   (\<exists>resolved before code.
      createToken env resolved before = (Inr code, world s') \<and>
      url = getRedirectUriForOneTimeCode env code \<and>
      filter isCreateToken (calls (trace s')) = [Call_createToken resolved] \<and>
      issuedCodes (trace s') = [code] \<and>
      ((\<exists>found.
          findUnique env (createProviderId env (ProviderConfig.id' provider) providerUserId') w
            = (Inr (Some found), before) \<and>
          resolved = id' (auth found) \<and>
          filter isCreateUser (calls (trace s')) = [] \<and>
          trace s' =
            [Invoke (Call_findUnique
               (createProviderId env (ProviderConfig.id' provider) providerUserId')),
             Resolve (Ret_authIdentity (Some found)),
             Invoke (Call_createToken (id' (auth found))),
             Resolve (Ret_oneTimeCode code)])
       \<or> (\<exists>w1 userFields w2 providerData w3 w4 user w5.
          findUnique env (createProviderId env (ProviderConfig.id' provider) providerUserId') w
            = (Inr None, w1) \<and>
          validateAndGetUserFields env \<lparr>profile = providerProfile\<rparr> userSignupFields w1
            = (Inr userFields, w2) \<and>
          sanitizeAndSerializeProviderData env [] w2 = (Inr providerData, w3) \<and>
          onBeforeSignupHook env req
            (createProviderId env (ProviderConfig.id' provider) providerUserId') w3
            = (Inr (), w4) \<and>
          createUser env (createProviderId env (ProviderConfig.id' provider) providerUserId')
            providerData userFields w4 = (Inr user, w5) \<and>
          onAfterSignupHook env req
            (createProviderId env (ProviderConfig.id' provider) providerUserId') user
            \<lparr>accessToken = accessToken', uniqueRequestId = state oAuthState\<rparr> w5
            = (Inr (), before) \<and>
          resolved = id' (auth user) \<and>
          filter isCreateUser (calls (trace s')) =
            [Call_createUser (createProviderId env (ProviderConfig.id' provider) providerUserId')
               providerData userFields] \<and>
          trace s' =
            [Invoke (Call_findUnique
               (createProviderId env (ProviderConfig.id' provider) providerUserId')),
             Resolve (Ret_authIdentity None),
             Invoke (Call_validateAndGetUserFields \<lparr>profile = providerProfile\<rparr>
                       userSignupFields),
             Resolve (Ret_userFields userFields),
             Invoke (Call_sanitizeAndSerializeProviderData []),
             Resolve (Ret_providerData providerData),
             Invoke (Call_onBeforeSignupHook req
               (createProviderId env (ProviderConfig.id' provider) providerUserId')),
             Resolve Ret_void,
             Invoke (Call_createUser
               (createProviderId env (ProviderConfig.id' provider) providerUserId')
               providerData userFields),
             Resolve (Ret_user user),
             Invoke (Call_onAfterSignupHook req
               (createProviderId env (ProviderConfig.id' provider) providerUserId') user
               \<lparr>accessToken = accessToken', uniqueRequestId = state oAuthState\<rparr>),
             Resolve Ret_void,
             Invoke (Call_createToken (id' (auth user))),
             Resolve (Ret_oneTimeCode code)])))"
  (is "?run \<longleftrightarrow> ?issued")
proof
  assume ?run
  then show ?issued
    by (auto simp: flow_defs Let_def split: prod.splits sum.splits option.splits)
next
  assume ?issued
  then show ?run
    by (elim exE conjE disjE)
       (simp_all add: flow_defs Let_def run_eqI [symmetric])
qed

theorem finish_issues_one_code_for_resolved_auth_witness:
  "finishOAuthFlowAndGetRedirectUri memDeps google gid9Body ''gid-9'' None
       ''/auth/google/callback'' ''other.tok'' \<lparr>state = ''s2''\<rparr> (start freshStore)
     = (Inr ''http://localhost:3000/oauth/callback?code=otc-1'',
        \<lparr>world = \<lparr>identities = [(gid9, ''auth-gid-9'')], mailerUp = True,
                  codeSupply = [''otc-2''], codes = [(''otc-1'', ''auth-gid-9'')]\<rparr>,
         trace = [Invoke (Call_findUnique gid9),
                  Resolve (Ret_authIdentity None),
                  Invoke (Call_validateAndGetUserFields \<lparr>profile = gid9Body\<rparr> None),
                  Resolve (Ret_userFields ()),
                  Invoke (Call_sanitizeAndSerializeProviderData []),
                  Resolve (Ret_providerData ''{}''),
                  Invoke (Call_onBeforeSignupHook ''/auth/google/callback'' gid9),
                  Resolve Ret_void,
                  Invoke (Call_createUser gid9 ''{}'' ()),
                  Resolve (Ret_user \<lparr>row = Suc 0, auth = \<lparr>id' = ''auth-gid-9''\<rparr>\<rparr>),
                  Invoke (Call_onAfterSignupHook ''/auth/google/callback'' gid9
                            \<lparr>row = Suc 0, auth = \<lparr>id' = ''auth-gid-9''\<rparr>\<rparr>
                            \<lparr>accessToken = ''other.tok'', uniqueRequestId = ''s2''\<rparr>),
                  Resolve Ret_void,
                  Invoke (Call_createToken ''auth-gid-9''),
                  Resolve (Ret_oneTimeCode ''otc-1'')]\<rparr>)
   \<and> finishOAuthFlowAndGetRedirectUri memDeps google gid9Body ''gid-9'' None
       ''/auth/google/callback'' ''ya29.tok'' \<lparr>state = ''s1''\<rparr> (start knownStore)
     = (Inr ''http://localhost:3000/oauth/callback?code=otc-1'',
        \<lparr>world = \<lparr>identities = [(gid9, ''auth-1'')], mailerUp = True,
                  codeSupply = [''otc-2''], codes = [(''otc-1'', ''auth-1'')]\<rparr>,
         trace = [Invoke (Call_findUnique gid9),
                  Resolve (Ret_authIdentity (Some \<lparr>row = gid9, auth = \<lparr>id' = ''auth-1''\<rparr>\<rparr>)),
                  Invoke (Call_createToken ''auth-1''),
                  Resolve (Ret_oneTimeCode ''otc-1'')]\<rparr>)"
proof (rule conjI)
  show "finishOAuthFlowAndGetRedirectUri memDeps google gid9Body ''gid-9'' None
       ''/auth/google/callback'' ''other.tok'' \<lparr>state = ''s2''\<rparr> (start freshStore)
     = (Inr ''http://localhost:3000/oauth/callback?code=otc-1'',
        \<lparr>world = \<lparr>identities = [(gid9, ''auth-gid-9'')], mailerUp = True,
                  codeSupply = [''otc-2''], codes = [(''otc-1'', ''auth-gid-9'')]\<rparr>,
         trace = [Invoke (Call_findUnique gid9),
                  Resolve (Ret_authIdentity None),
                  Invoke (Call_validateAndGetUserFields \<lparr>profile = gid9Body\<rparr> None),
                  Resolve (Ret_userFields ()),
                  Invoke (Call_sanitizeAndSerializeProviderData []),
                  Resolve (Ret_providerData ''{}''),
                  Invoke (Call_onBeforeSignupHook ''/auth/google/callback'' gid9),
                  Resolve Ret_void,
                  Invoke (Call_createUser gid9 ''{}'' ()),
                  Resolve (Ret_user \<lparr>row = Suc 0, auth = \<lparr>id' = ''auth-gid-9''\<rparr>\<rparr>),
                  Invoke (Call_onAfterSignupHook ''/auth/google/callback'' gid9
                            \<lparr>row = Suc 0, auth = \<lparr>id' = ''auth-gid-9''\<rparr>\<rparr>
                            \<lparr>accessToken = ''other.tok'', uniqueRequestId = ''s2''\<rparr>),
                  Resolve Ret_void,
                  Invoke (Call_createToken ''auth-gid-9''),
                  Resolve (Ret_oneTimeCode ''otc-1'')]\<rparr>)"
    apply (rule iffD2 [OF finish_issues_one_code_for_resolved_auth])
    apply (rule exI [where x = "''auth-gid-9''"])
    apply (rule exI [where x = "\<lparr>identities = [(gid9, ''auth-gid-9'')], mailerUp = True,
                                 codeSupply = [''otc-1'', ''otc-2''], codes = []\<rparr>"])
    apply (rule exI [where x = "''otc-1''"])
    apply (simp add: memDeps_defs)
    done
next
  show "finishOAuthFlowAndGetRedirectUri memDeps google gid9Body ''gid-9'' None
       ''/auth/google/callback'' ''ya29.tok'' \<lparr>state = ''s1''\<rparr> (start knownStore)
     = (Inr ''http://localhost:3000/oauth/callback?code=otc-1'',
        \<lparr>world = \<lparr>identities = [(gid9, ''auth-1'')], mailerUp = True,
                  codeSupply = [''otc-2''], codes = [(''otc-1'', ''auth-1'')]\<rparr>,
         trace = [Invoke (Call_findUnique gid9),
                  Resolve (Ret_authIdentity (Some \<lparr>row = gid9, auth = \<lparr>id' = ''auth-1''\<rparr>\<rparr>)),
                  Invoke (Call_createToken ''auth-1''),
                  Resolve (Ret_oneTimeCode ''otc-1'')]\<rparr>)"
    apply (rule iffD2 [OF finish_issues_one_code_for_resolved_auth])
    apply (rule exI [where x = "''auth-1''"])
    apply (rule exI [where x = knownStore])
    apply (rule exI [where x = "''otc-1''"])
    apply (simp add: memDeps_defs)
    done
qed

text \<open>
  Claim C2. On the identity-creation path (no identity found, user fields validated,
  provider data serialised), when \<open>onBeforeSignupHook\<close> rejects with \<open>e\<close>,
  \<open>getAuthIdFromProviderDetails\<close> rejects with the same \<open>e\<close> directly after the hook,
  and so does \<open>finishOAuthFlowAndGetRedirectUri\<close>: the world is the one the hook left,
  neither \<open>createUser\<close> nor \<open>onAfterSignupHook\<close> nor \<open>createToken\<close> is called, and no
  one-time code is issued.
\<close>

theorem before_signup_rejection_aborts_flow:
  assumes pid: "providerId = createProviderId env (ProviderConfig.id' provider) providerUserId'"
    and look: "findUnique env providerId w0 = (Inr None, w1)"
    and valid: "validateAndGetUserFields env \<lparr>profile = providerProfile\<rparr> userSignupFields w1
                  = (Inr userFields, w2)"
    and ser: "sanitizeAndSerializeProviderData env [] w2 = (Inr providerData, w3)"
    and hook: "onBeforeSignupHook env req providerId w3 = (Inl e, w4)"
  shows "getAuthIdFromProviderDetails env providerId providerProfile userSignupFields req
           accessToken' oAuthState (start w0)
         = (Inl e,
            \<lparr>world = w4,
             trace = [Invoke (Call_findUnique providerId),
                      Resolve (Ret_authIdentity None),
                      Invoke (Call_validateAndGetUserFields \<lparr>profile = providerProfile\<rparr>
                                userSignupFields),
                      Resolve (Ret_userFields userFields),
                      Invoke (Call_sanitizeAndSerializeProviderData []),
                      Resolve (Ret_providerData providerData),
                      Invoke (Call_onBeforeSignupHook req providerId),
                      Reject e]\<rparr>)
       \<and> finishOAuthFlowAndGetRedirectUri env provider providerProfile providerUserId'
           userSignupFields req accessToken' oAuthState (start w0)
         = getAuthIdFromProviderDetails env providerId providerProfile userSignupFields req
             accessToken' oAuthState (start w0)
       \<and> filter (\<lambda>c. isCreateUser c \<or> isOnAfterSignupHook c \<or> isCreateToken c)
           (calls (trace (snd (finishOAuthFlowAndGetRedirectUri env provider providerProfile
              providerUserId' userSignupFields req accessToken' oAuthState (start w0))))) = []
       \<and> issuedCodes (trace (snd (finishOAuthFlowAndGetRedirectUri env provider providerProfile
              providerUserId' userSignupFields req accessToken' oAuthState (start w0)))) = []"
  using look valid ser hook unfolding pid
  by (simp add: flow_defs Let_def)

theorem before_signup_rejection_aborts_flow_witness:
  "onBeforeSignupHook memDeps ''/auth/email/callback'' bannedProviderId freshStore
     = (Inl (HttpError 403 ''This email is not allowed''), freshStore)
   \<and> finishOAuthFlowAndGetRedirectUri memDeps emailProvider gid9Body ''banned@example.com'' None
       ''/auth/email/callback'' ''tok'' \<lparr>state = ''s1''\<rparr> (start freshStore)
     = (Inl (HttpError 403 ''This email is not allowed''),
        \<lparr>world = freshStore,
         trace = [Invoke (Call_findUnique bannedProviderId),
                  Resolve (Ret_authIdentity None),
                  Invoke (Call_validateAndGetUserFields \<lparr>profile = gid9Body\<rparr> None),
                  Resolve (Ret_userFields ()),
                  Invoke (Call_sanitizeAndSerializeProviderData []),
                  Resolve (Ret_providerData ''{}''),
                  Invoke (Call_onBeforeSignupHook ''/auth/email/callback'' bannedProviderId),
                  Reject (HttpError 403 ''This email is not allowed'')]\<rparr>)
   \<and> identities freshStore = []"
proof -
  have pid: "bannedProviderId
               = createProviderId memDeps (ProviderConfig.id' emailProvider) ''banned@example.com''"
    by (simp add: memDeps_def memCreateProviderId_def bannedProviderId_def emailProvider_def)
  have fresh: "identities freshStore = []"
    by (simp add: freshStore_def)
  have hook: "onBeforeSignupHook memDeps ''/auth/email/callback'' bannedProviderId freshStore
                = (Inl (HttpError 403 ''This email is not allowed''), freshStore)"
    by (simp add: memDeps_def memOnBeforeSignupHook_def)
  from before_signup_rejection_aborts_flow
         [OF pid mem_look_fresh [OF fresh] mem_valid mem_ser hook,
          of gid9Body None "''tok''" "\<lparr>state = ''s1''\<rparr>"]
  show ?thesis
    using hook fresh by simp
qed

text \<open>
  Claim C3. On the login path, where \<open>findUnique\<close> finds an identity for the provider id,
  \<open>getAuthIdFromProviderDetails\<close> resolves with the \<open>auth.id\<close> of that identity, and its
  trace holds no call of \<open>onBeforeSignupHook\<close> and none of \<open>onAfterSignupHook\<close>.
\<close>

theorem login_path_returns_existing_auth_id_without_hooks:
  assumes "findUnique env providerId w = (Inr (Some found), w')"
  shows "fst (getAuthIdFromProviderDetails env providerId providerProfile userSignupFields req
                accessToken' oAuthState (start w)) = Inr (id' (auth found))
       \<and> filter (\<lambda>c. isOnBeforeSignupHook c \<or> isOnAfterSignupHook c)
            (calls (trace (snd (getAuthIdFromProviderDetails env providerId providerProfile
                userSignupFields req accessToken' oAuthState (start w))))) = []"
  using assms by (simp add: flow_defs)

theorem login_path_returns_existing_auth_id_without_hooks_witness:
  "findUnique memDeps gid9 knownStore
     = (Inr (Some \<lparr>row = gid9, auth = \<lparr>id' = ''auth-1''\<rparr>\<rparr>), knownStore)
   \<and> fst (getAuthIdFromProviderDetails memDeps gid9 gid9Body None ''/auth/google/callback''
            ''ya29.tok'' \<lparr>state = ''s1''\<rparr> (start knownStore)) = Inr ''auth-1''"
proof -
  have look: "findUnique memDeps gid9 knownStore
     = (Inr (Some \<lparr>row = gid9, auth = \<lparr>id' = ''auth-1''\<rparr>\<rparr>), knownStore)"
    by (simp add: mem_look knownStore_def)
  from login_path_returns_existing_auth_id_without_hooks [OF look] look show ?thesis
    by simp
qed

text \<open>
  Claim C4. On the signup path, once \<open>createUser\<close> has resolved with a user,
  \<open>onAfterSignupHook\<close> is applied exactly once: to the request, the provider id, that
  user and the \<open>oauth\<close> object holding the provider access token and, as
  \<open>uniqueRequestId\<close>, \<open>oAuthState.state\<close>, on the world \<open>createUser\<close> left. The call is
  the only hook call in the trace and comes directly after the resolution of
  \<open>createUser\<close>. What the hook does decides the rest: its rejection is the rejection of
  the flow, on the world it left; its resolution makes \<open>getAuthIdFromProviderDetails\<close>
  resolve with the user's \<open>auth.id\<close> on the world it left, and
  \<open>finishOAuthFlowAndGetRedirectUri\<close> go on to \<open>createToken\<close> from there.
\<close>

theorem after_signup_hook_invoked_once_with_oauth_context:
  assumes pid: "providerId = createProviderId env (ProviderConfig.id' provider) providerUserId'"
    and look: "findUnique env providerId w0 = (Inr None, w1)"
    and valid: "validateAndGetUserFields env \<lparr>profile = providerProfile\<rparr> userSignupFields w1
                  = (Inr userFields, w2)"
    and ser: "sanitizeAndSerializeProviderData env [] w2 = (Inr providerData, w3)"
    and hook: "onBeforeSignupHook env req providerId w3 = (Inr (), w4)"
    and new: "createUser env providerId providerData userFields w4 = (Inr user, w5)"
  shows "filter isOnAfterSignupHook
           (calls (trace (snd (finishOAuthFlowAndGetRedirectUri env provider providerProfile
              providerUserId' userSignupFields req accessToken' oAuthState (start w0)))))
         = [Call_onAfterSignupHook req providerId user
              \<lparr>accessToken = accessToken', uniqueRequestId = state oAuthState\<rparr>]
       \<and> take 11 (trace (snd (finishOAuthFlowAndGetRedirectUri env provider
              providerProfile providerUserId' userSignupFields req accessToken' oAuthState
              (start w0))))
         = [Invoke (Call_findUnique providerId),
            Resolve (Ret_authIdentity None),
            Invoke (Call_validateAndGetUserFields \<lparr>profile = providerProfile\<rparr>
                      userSignupFields),
            Resolve (Ret_userFields userFields),
            Invoke (Call_sanitizeAndSerializeProviderData []),
            Resolve (Ret_providerData providerData),
            Invoke (Call_onBeforeSignupHook req providerId),
            Resolve Ret_void,
            Invoke (Call_createUser providerId providerData userFields),
            Resolve (Ret_user user),
            Invoke (Call_onAfterSignupHook req providerId user
              \<lparr>accessToken = accessToken', uniqueRequestId = state oAuthState\<rparr>)]
       \<and> getAuthIdFromProviderDetails env providerId providerProfile userSignupFields req
           accessToken' oAuthState (start w0)
         = (case onAfterSignupHook env req providerId user
                   \<lparr>accessToken = accessToken', uniqueRequestId = state oAuthState\<rparr> w5 of
              (Inl e, w6) \<Rightarrow>
                (Inl e,
                 \<lparr>world = w6,
                  trace = [Invoke (Call_findUnique providerId),
                           Resolve (Ret_authIdentity None),
                           Invoke (Call_validateAndGetUserFields \<lparr>profile = providerProfile\<rparr>
                                     userSignupFields),
                           Resolve (Ret_userFields userFields),
                           Invoke (Call_sanitizeAndSerializeProviderData []),
                           Resolve (Ret_providerData providerData),
                           Invoke (Call_onBeforeSignupHook req providerId),
                           Resolve Ret_void,
                           Invoke (Call_createUser providerId providerData userFields),
                           Resolve (Ret_user user),
                           Invoke (Call_onAfterSignupHook req providerId user
                             \<lparr>accessToken = accessToken',
                              uniqueRequestId = state oAuthState\<rparr>),
                           Reject e]\<rparr>)
            | (Inr finished, w6) \<Rightarrow>
                (Inr (id' (auth user)),
                 \<lparr>world = w6,
                  trace = [Invoke (Call_findUnique providerId),
                           Resolve (Ret_authIdentity None),
                           Invoke (Call_validateAndGetUserFields \<lparr>profile = providerProfile\<rparr>
                                     userSignupFields),
                           Resolve (Ret_userFields userFields),
                           Invoke (Call_sanitizeAndSerializeProviderData []),
                           Resolve (Ret_providerData providerData),
                           Invoke (Call_onBeforeSignupHook req providerId),
                           Resolve Ret_void,
                           Invoke (Call_createUser providerId providerData userFields),
                           Resolve (Ret_user user),
                           Invoke (Call_onAfterSignupHook req providerId user
                             \<lparr>accessToken = accessToken',
                              uniqueRequestId = state oAuthState\<rparr>),
                           Resolve Ret_void]\<rparr>))
       \<and> finishOAuthFlowAndGetRedirectUri env provider providerProfile providerUserId'
           userSignupFields req accessToken' oAuthState (start w0)
         = (case onAfterSignupHook env req providerId user
                   \<lparr>accessToken = accessToken', uniqueRequestId = state oAuthState\<rparr> w5 of
              (Inl e, w6) \<Rightarrow>
                (Inl e,
                 \<lparr>world = w6,
                  trace = [Invoke (Call_findUnique providerId),
                           Resolve (Ret_authIdentity None),
                           Invoke (Call_validateAndGetUserFields \<lparr>profile = providerProfile\<rparr>
                                     userSignupFields),
                           Resolve (Ret_userFields userFields),
                           Invoke (Call_sanitizeAndSerializeProviderData []),
                           Resolve (Ret_providerData providerData),
                           Invoke (Call_onBeforeSignupHook req providerId),
                           Resolve Ret_void,
                           Invoke (Call_createUser providerId providerData userFields),
                           Resolve (Ret_user user),
                           Invoke (Call_onAfterSignupHook req providerId user
                             \<lparr>accessToken = accessToken',
                              uniqueRequestId = state oAuthState\<rparr>),
                           Reject e]\<rparr>)
            | (Inr finished, w6) \<Rightarrow>
                (case createToken env (id' (auth user)) w6 of
                   (Inl e, w7) \<Rightarrow>
                     (Inl e,
                      \<lparr>world = w7,
                       trace = [Invoke (Call_findUnique providerId),
                                Resolve (Ret_authIdentity None),
                                Invoke (Call_validateAndGetUserFields
                                          \<lparr>profile = providerProfile\<rparr> userSignupFields),
                                Resolve (Ret_userFields userFields),
                                Invoke (Call_sanitizeAndSerializeProviderData []),
                                Resolve (Ret_providerData providerData),
                                Invoke (Call_onBeforeSignupHook req providerId),
                                Resolve Ret_void,
                                Invoke (Call_createUser providerId providerData userFields),
                                Resolve (Ret_user user),
                                Invoke (Call_onAfterSignupHook req providerId user
                                  \<lparr>accessToken = accessToken',
                                   uniqueRequestId = state oAuthState\<rparr>),
                                Resolve Ret_void,
                                Invoke (Call_createToken (id' (auth user))),
                                Reject e]\<rparr>)
                 | (Inr oneTimeCode, w7) \<Rightarrow>
                     (Inr (getRedirectUriForOneTimeCode env oneTimeCode),
                      \<lparr>world = w7,
                       trace = [Invoke (Call_findUnique providerId),
                                Resolve (Ret_authIdentity None),
                                Invoke (Call_validateAndGetUserFields
                                          \<lparr>profile = providerProfile\<rparr> userSignupFields),
                                Resolve (Ret_userFields userFields),
                                Invoke (Call_sanitizeAndSerializeProviderData []),
                                Resolve (Ret_providerData providerData),
                                Invoke (Call_onBeforeSignupHook req providerId),
                                Resolve Ret_void,
                                Invoke (Call_createUser providerId providerData userFields),
                                Resolve (Ret_user user),
                                Invoke (Call_onAfterSignupHook req providerId user
                                  \<lparr>accessToken = accessToken',
                                   uniqueRequestId = state oAuthState\<rparr>),
                                Resolve Ret_void,
                                Invoke (Call_createToken (id' (auth user))),
                                Resolve (Ret_oneTimeCode oneTimeCode)]\<rparr>)))"
  using look valid ser hook new unfolding pid
  by (simp add: flow_defs Let_def split: prod.splits sum.splits)

theorem after_signup_hook_invoked_once_with_oauth_context_witness:
  "createUser memDeps gid9 ''{}'' () freshStore
     = (Inr \<lparr>row = Suc 0, auth = \<lparr>id' = ''auth-gid-9''\<rparr>\<rparr>,
        freshStore\<lparr>identities := [(gid9, ''auth-gid-9'')]\<rparr>)
   \<and> onAfterSignupHook memDeps ''/auth/google/callback'' gid9
        \<lparr>row = Suc 0, auth = \<lparr>id' = ''auth-gid-9''\<rparr>\<rparr>
        \<lparr>accessToken = ''other.tok'', uniqueRequestId = ''s2''\<rparr>
        (freshStore\<lparr>identities := [(gid9, ''auth-gid-9'')]\<rparr>)
     = (Inr (), freshStore\<lparr>identities := [(gid9, ''auth-gid-9'')]\<rparr>)
   \<and> filter isOnAfterSignupHook
       (calls (trace (snd (finishOAuthFlowAndGetRedirectUri memDeps google gid9Body ''gid-9''
          None ''/auth/google/callback'' ''other.tok'' \<lparr>state = ''s2''\<rparr> (start freshStore)))))
     = [Call_onAfterSignupHook ''/auth/google/callback'' gid9
          \<lparr>row = Suc 0, auth = \<lparr>id' = ''auth-gid-9''\<rparr>\<rparr>
          \<lparr>accessToken = ''other.tok'', uniqueRequestId = ''s2''\<rparr>]
   \<and> getAuthIdFromProviderDetails memDeps gid9 gid9Body None ''/auth/google/callback''
        ''other.tok'' \<lparr>state = ''s2''\<rparr> (start freshStore)
     = (Inr ''auth-gid-9'',
        \<lparr>world = freshStore\<lparr>identities := [(gid9, ''auth-gid-9'')]\<rparr>,
         trace = [Invoke (Call_findUnique gid9),
                  Resolve (Ret_authIdentity None),
                  Invoke (Call_validateAndGetUserFields \<lparr>profile = gid9Body\<rparr> None),
                  Resolve (Ret_userFields ()),
                  Invoke (Call_sanitizeAndSerializeProviderData []),
                  Resolve (Ret_providerData ''{}''),
                  Invoke (Call_onBeforeSignupHook ''/auth/google/callback'' gid9),
                  Resolve Ret_void,
                  Invoke (Call_createUser gid9 ''{}'' ()),
                  Resolve (Ret_user \<lparr>row = Suc 0, auth = \<lparr>id' = ''auth-gid-9''\<rparr>\<rparr>),
                  Invoke (Call_onAfterSignupHook ''/auth/google/callback'' gid9
                            \<lparr>row = Suc 0, auth = \<lparr>id' = ''auth-gid-9''\<rparr>\<rparr>
                            \<lparr>accessToken = ''other.tok'', uniqueRequestId = ''s2''\<rparr>),
                  Resolve Ret_void]\<rparr>)
   \<and> fst (getAuthIdFromProviderDetails memDeps gid9 gid9Body None ''/auth/google/callback''
        ''other.tok'' \<lparr>state = ''s2''\<rparr> (start mailerDownStore))
     = Inl (Error ''mail server down'')"
proof -
  have fresh: "identities freshStore = []"
    by (simp add: freshStore_def)
  have down: "identities mailerDownStore = []"
    by (simp add: mailerDownStore_def)
  have up: "mailerUp (freshStore\<lparr>identities := [(gid9, ''auth-gid-9'')]\<rparr>)"
    by (simp add: freshStore_def)
  have off: "\<not> mailerUp (mailerDownStore\<lparr>identities := [(gid9, ''auth-gid-9'')]\<rparr>)"
    by (simp add: mailerDownStore_def)
  note signed_up = after_signup_hook_invoked_once_with_oauth_context
         [OF mem_pid mem_look_fresh [OF fresh] mem_valid mem_ser mem_hook mem_new [OF fresh],
          of gid9Body None "''/auth/google/callback''" "''other.tok''" "\<lparr>state = ''s2''\<rparr>"]
  note mail_down = after_signup_hook_invoked_once_with_oauth_context
         [OF mem_pid mem_look_fresh [OF down] mem_valid mem_ser mem_hook mem_new [OF down],
          of gid9Body None "''/auth/google/callback''" "''other.tok''" "\<lparr>state = ''s2''\<rparr>"]
  from signed_up [THEN conjunct1]
  have once: "filter isOnAfterSignupHook
       (calls (trace (snd (finishOAuthFlowAndGetRedirectUri memDeps google gid9Body ''gid-9''
          None ''/auth/google/callback'' ''other.tok'' \<lparr>state = ''s2''\<rparr> (start freshStore)))))
     = [Call_onAfterSignupHook ''/auth/google/callback'' gid9
          \<lparr>row = Suc 0, auth = \<lparr>id' = ''auth-gid-9''\<rparr>\<rparr>
          \<lparr>accessToken = ''other.tok'', uniqueRequestId = ''s2''\<rparr>]"
    by simp
  from signed_up [THEN conjunct2, THEN conjunct2, THEN conjunct1] up
  have resolved: "getAuthIdFromProviderDetails memDeps gid9 gid9Body None
        ''/auth/google/callback'' ''other.tok'' \<lparr>state = ''s2''\<rparr> (start freshStore)
     = (Inr ''auth-gid-9'',
        \<lparr>world = freshStore\<lparr>identities := [(gid9, ''auth-gid-9'')]\<rparr>,
         trace = [Invoke (Call_findUnique gid9),
                  Resolve (Ret_authIdentity None),
                  Invoke (Call_validateAndGetUserFields \<lparr>profile = gid9Body\<rparr> None),
                  Resolve (Ret_userFields ()),
                  Invoke (Call_sanitizeAndSerializeProviderData []),
                  Resolve (Ret_providerData ''{}''),
                  Invoke (Call_onBeforeSignupHook ''/auth/google/callback'' gid9),
                  Resolve Ret_void,
                  Invoke (Call_createUser gid9 ''{}'' ()),
                  Resolve (Ret_user \<lparr>row = Suc 0, auth = \<lparr>id' = ''auth-gid-9''\<rparr>\<rparr>),
                  Invoke (Call_onAfterSignupHook ''/auth/google/callback'' gid9
                            \<lparr>row = Suc 0, auth = \<lparr>id' = ''auth-gid-9''\<rparr>\<rparr>
                            \<lparr>accessToken = ''other.tok'', uniqueRequestId = ''s2''\<rparr>),
                  Resolve Ret_void]\<rparr>)"
    by (simp add: mem_after)
  from mail_down [THEN conjunct2, THEN conjunct2, THEN conjunct1] off
  have rejected: "fst (getAuthIdFromProviderDetails memDeps gid9 gid9Body None
        ''/auth/google/callback'' ''other.tok'' \<lparr>state = ''s2''\<rparr> (start mailerDownStore))
     = Inl (Error ''mail server down'')"
    by (simp add: mem_after)
  from up
  have hook_ok: "onAfterSignupHook memDeps ''/auth/google/callback'' gid9
        \<lparr>row = Suc 0, auth = \<lparr>id' = ''auth-gid-9''\<rparr>\<rparr>
        \<lparr>accessToken = ''other.tok'', uniqueRequestId = ''s2''\<rparr>
        (freshStore\<lparr>identities := [(gid9, ''auth-gid-9'')]\<rparr>)
     = (Inr (), freshStore\<lparr>identities := [(gid9, ''auth-gid-9'')]\<rparr>)"
    by (simp add: mem_after)
  from mem_new [OF fresh] hook_ok once resolved rejected show ?thesis
    by (intro conjI)
qed

text \<open>
  The statement of claim C5 fails at a response whose \<open>sub\<close> field is present and empty:
  the field is there, and \<open>getGoogleProfile\<close> throws instead of returning it.
\<close>

theorem getGoogleProfile_empty_sub_counterexample:
  "sub emptySubBody = Some [] \<and>
   getGoogleProfile (respondWith emptySubBody) parsed ''ya29.tok''
     = Inl (Error ''Invalid profile'')"
  by (simp add: getGoogleProfile_def respondWith_def parsed_def emptySubBody_def truthy_def)

text \<open>
  Claim C5, amended. For every userinfo response that was fetched and parsed,
  \<open>getGoogleProfile\<close> throws \<^verbatim>\<open>Error("Invalid profile")\<close> when the body has no \<open>sub\<close>
  field or an empty one, and otherwise returns the body together with its \<open>sub\<close> as
  \<open>providerUserId\<close>.
\<close>

theorem getGoogleProfile_requires_nonempty_sub:
  assumes "fetch ''https://openidconnect.googleapis.com/v1/userinfo''
             [(''Authorization'', ''Bearer '' @ accessToken')] = Inr response"
    and "json response = Inr body"
  shows "getGoogleProfile fetch json accessToken' =
           (case sub body of
              None \<Rightarrow> Inl (Error ''Invalid profile'')
            | Some s \<Rightarrow> if s = [] then Inl (Error ''Invalid profile'') else Inr (body, s))"
  using assms by (simp add: getGoogleProfile_def truthy_def split: option.splits)

theorem getGoogleProfile_requires_nonempty_sub_witness:
  "respondWith gid9Body ''https://openidconnect.googleapis.com/v1/userinfo''
     [(''Authorization'', ''Bearer '' @ ''ya29.tok'')] = Inr gid9Body
   \<and> parsed gid9Body = Inr gid9Body
   \<and> getGoogleProfile (respondWith gid9Body) parsed ''ya29.tok'' = Inr (gid9Body, ''gid-9'')"
proof -
  have f: "respondWith gid9Body ''https://openidconnect.googleapis.com/v1/userinfo''
             [(''Authorization'', ''Bearer '' @ ''ya29.tok'')] = Inr gid9Body"
    by (simp add: respondWith_def)
  have j: "parsed gid9Body = Inr gid9Body"
    by (simp add: parsed_def)
  from getGoogleProfile_requires_nonempty_sub
         [of "respondWith gid9Body" "''ya29.tok''" gid9Body parsed gid9Body, OF f j]
  show ?thesis
    using f j by (simp add: gid9Body_def)
qed

text \<open>
  Claim C6. Two runs of \<open>finishOAuthFlowAndGetRedirectUri\<close> that both return a URL and
  were issued the same one-time code return the same URL, whatever provider, profile,
  provider user id, signup fields, request, access token, state and world each started
  from: the URL is \<open>getRedirectUriForOneTimeCode\<close> of the one code issued in the run.
\<close>

theorem redirect_uri_depends_on_code_only:
  assumes run1: "finishOAuthFlowAndGetRedirectUri env provider1 providerProfile1 providerUserId1
                   userSignupFields1 req1 accessToken1 oAuthState1 (start w1) = (Inr url1, s1)"
    and run2: "finishOAuthFlowAndGetRedirectUri env provider2 providerProfile2 providerUserId2
                   userSignupFields2 req2 accessToken2 oAuthState2 (start w2) = (Inr url2, s2)"
    and same: "issuedCodes (trace s1) = issuedCodes (trace s2)"
  shows "url1 = url2
       \<and> (\<exists>code. issuedCodes (trace s1) = [code] \<and> url1 = getRedirectUriForOneTimeCode env code)"
proof -
  obtain c1 where c1: "issuedCodes (trace s1) = [c1]" "url1 = getRedirectUriForOneTimeCode env c1"
    using finish_success_code [OF run1] by blast
  obtain c2 where c2: "issuedCodes (trace s2) = [c2]" "url2 = getRedirectUriForOneTimeCode env c2"
    using finish_success_code [OF run2] by blast
  from c1 c2 same have "c1 = c2" by simp
  with c1 c2 show ?thesis by simp
qed

theorem redirect_uri_depends_on_code_only_witness:
  "fst (finishOAuthFlowAndGetRedirectUri memDeps google gid9Body ''gid-9'' None
          ''/auth/google/callback'' ''ya29.tok'' \<lparr>state = ''s1''\<rparr> (start knownStore))
     = fst (finishOAuthFlowAndGetRedirectUri memDeps google gid9Body ''gid-9'' None
          ''/auth/google/callback'' ''other.tok'' \<lparr>state = ''s2''\<rparr> (start freshStore))
   \<and> filter isCreateToken (calls (trace (snd (finishOAuthFlowAndGetRedirectUri memDeps google
          gid9Body ''gid-9'' None ''/auth/google/callback'' ''ya29.tok'' \<lparr>state = ''s1''\<rparr>
          (start knownStore))))) = [Call_createToken ''auth-1'']
   \<and> filter isCreateToken (calls (trace (snd (finishOAuthFlowAndGetRedirectUri memDeps google
          gid9Body ''gid-9'' None ''/auth/google/callback'' ''other.tok'' \<lparr>state = ''s2''\<rparr>
          (start freshStore))))) = [Call_createToken ''auth-gid-9'']"
proof -
  from redirect_uri_depends_on_code_only [OF mem_login_run mem_signup_run]
  have "''http://localhost:3000/oauth/callback?code=otc-1''
          = ''http://localhost:3000/oauth/callback?code=otc-1''
        \<and> (\<exists>code. [''otc-1''] = [code]
              \<and> ''http://localhost:3000/oauth/callback?code=otc-1''
                   = getRedirectUriForOneTimeCode memDeps code)"
    by simp
  then show ?thesis
    by (simp add: mem_login_run mem_signup_run)
qed

text \<open>
  Claim C7. On the signup path, when both hooks and \<open>createUser\<close> resolve, the trace of
  \<open>finishOAuthFlowAndGetRedirectUri\<close> up to the call of \<open>createToken\<close> is fixed:
  \<open>onBeforeSignupHook\<close> is invoked and resolves, only then \<open>createUser\<close> is invoked and
  resolves, only then \<open>onAfterSignupHook\<close> is invoked and resolves, and only then
  \<open>createToken\<close> is invoked. Each step runs on the world its predecessor left, and
  \<open>createToken\<close> runs on the world that \<open>onAfterSignupHook\<close> left.
\<close>

theorem signup_steps_run_in_sequence:
  assumes pid: "providerId = createProviderId env (ProviderConfig.id' provider) providerUserId'"
    and look: "findUnique env providerId w0 = (Inr None, w1)"
    and valid: "validateAndGetUserFields env \<lparr>profile = providerProfile\<rparr> userSignupFields w1
                  = (Inr userFields, w2)"
    and ser: "sanitizeAndSerializeProviderData env [] w2 = (Inr providerData, w3)"
    and hook: "onBeforeSignupHook env req providerId w3 = (Inr (), w4)"
    and new: "createUser env providerId providerData userFields w4 = (Inr user, w5)"
    and after: "onAfterSignupHook env req providerId user
                  \<lparr>accessToken = accessToken', uniqueRequestId = state oAuthState\<rparr> w5
                  = (Inr (), w6)"
  shows "take 13 (trace (snd (finishOAuthFlowAndGetRedirectUri env provider
              providerProfile providerUserId' userSignupFields req accessToken' oAuthState
              (start w0))))
         = [Invoke (Call_findUnique providerId),
            Resolve (Ret_authIdentity None),
            Invoke (Call_validateAndGetUserFields \<lparr>profile = providerProfile\<rparr>
                      userSignupFields),
            Resolve (Ret_userFields userFields),
            Invoke (Call_sanitizeAndSerializeProviderData []),
            Resolve (Ret_providerData providerData),
            Invoke (Call_onBeforeSignupHook req providerId),
            Resolve Ret_void,
            Invoke (Call_createUser providerId providerData userFields),
            Resolve (Ret_user user),
            Invoke (Call_onAfterSignupHook req providerId user
              \<lparr>accessToken = accessToken', uniqueRequestId = state oAuthState\<rparr>),
            Resolve Ret_void,
            Invoke (Call_createToken (id' (auth user)))]
       \<and> length (trace (snd (finishOAuthFlowAndGetRedirectUri env provider
              providerProfile providerUserId' userSignupFields req accessToken' oAuthState
              (start w0)))) = 14
       \<and> world (snd (finishOAuthFlowAndGetRedirectUri env provider
              providerProfile providerUserId' userSignupFields req accessToken' oAuthState
              (start w0)))
         = snd (createToken env (id' (auth user)) w6)"
  using look valid ser hook new after unfolding pid
  by (simp add: flow_defs Let_def split: prod.splits sum.splits)

theorem signup_steps_run_in_sequence_witness:
  "onAfterSignupHook memDeps ''/auth/google/callback'' gid9
       \<lparr>row = Suc 0, auth = \<lparr>id' = ''auth-gid-9''\<rparr>\<rparr>
       \<lparr>accessToken = ''other.tok'', uniqueRequestId = state \<lparr>state = ''s2''\<rparr>\<rparr>
       (freshStore\<lparr>identities := [(gid9, ''auth-gid-9'')]\<rparr>)
     = (Inr (), freshStore\<lparr>identities := [(gid9, ''auth-gid-9'')]\<rparr>)
   \<and> calls (trace (snd (finishOAuthFlowAndGetRedirectUri memDeps google gid9Body ''gid-9''
          None ''/auth/google/callback'' ''other.tok'' \<lparr>state = ''s2''\<rparr> (start freshStore))))
     = [Call_findUnique gid9,
        Call_validateAndGetUserFields \<lparr>profile = gid9Body\<rparr> None,
        Call_sanitizeAndSerializeProviderData [],
        Call_onBeforeSignupHook ''/auth/google/callback'' gid9,
        Call_createUser gid9 ''{}'' (),
        Call_onAfterSignupHook ''/auth/google/callback'' gid9
          \<lparr>row = Suc 0, auth = \<lparr>id' = ''auth-gid-9''\<rparr>\<rparr>
          \<lparr>accessToken = ''other.tok'', uniqueRequestId = ''s2''\<rparr>,
        Call_createToken ''auth-gid-9'']"
proof -
  have fresh: "identities freshStore = []"
    by (simp add: freshStore_def)
  have after: "onAfterSignupHook memDeps ''/auth/google/callback'' gid9
       \<lparr>row = Suc 0, auth = \<lparr>id' = ''auth-gid-9''\<rparr>\<rparr>
       \<lparr>accessToken = ''other.tok'', uniqueRequestId = state \<lparr>state = ''s2''\<rparr>\<rparr>
       (freshStore\<lparr>identities := [(gid9, ''auth-gid-9'')]\<rparr>)
     = (Inr (), freshStore\<lparr>identities := [(gid9, ''auth-gid-9'')]\<rparr>)"
    by (simp add: mem_after freshStore_def)
  from signup_steps_run_in_sequence
         [OF mem_pid mem_look_fresh [OF fresh] mem_valid mem_ser mem_hook mem_new [OF fresh]
             after]
  show ?thesis
    using after by (simp add: mem_signup_run)
qed

text \<open>
  Claim C8. When \<open>onAfterSignupHook\<close> rejects with \<open>e\<close> after \<open>createUser\<close> has resolved,
  \<open>finishOAuthFlowAndGetRedirectUri\<close> rejects with \<open>e\<close> and returns no URL. The rejection
  is the last event of the run: no call follows that could undo the creation, so the world
  is the one the hook left of the world in which \<open>createUser\<close> had committed; and
  \<open>createToken\<close> is not called, so no one-time code is issued.
\<close>

theorem after_signup_failure_propagates_without_rollback:
  assumes pid: "providerId = createProviderId env (ProviderConfig.id' provider) providerUserId'"
    and look: "findUnique env providerId w0 = (Inr None, w1)"
    and valid: "validateAndGetUserFields env \<lparr>profile = providerProfile\<rparr> userSignupFields w1
                  = (Inr userFields, w2)"
    and ser: "sanitizeAndSerializeProviderData env [] w2 = (Inr providerData, w3)"
    and hook: "onBeforeSignupHook env req providerId w3 = (Inr (), w4)"
    and new: "createUser env providerId providerData userFields w4 = (Inr user, w5)"
    and after: "onAfterSignupHook env req providerId user
                  \<lparr>accessToken = accessToken', uniqueRequestId = state oAuthState\<rparr> w5
                  = (Inl e, w6)"
  shows "finishOAuthFlowAndGetRedirectUri env provider providerProfile providerUserId'
           userSignupFields req accessToken' oAuthState (start w0)
         = (Inl e,
            \<lparr>world = w6,
             trace = [Invoke (Call_findUnique providerId),
                      Resolve (Ret_authIdentity None),
                      Invoke (Call_validateAndGetUserFields \<lparr>profile = providerProfile\<rparr>
                                userSignupFields),
                      Resolve (Ret_userFields userFields),
                      Invoke (Call_sanitizeAndSerializeProviderData []),
                      Resolve (Ret_providerData providerData),
                      Invoke (Call_onBeforeSignupHook req providerId),
                      Resolve Ret_void,
                      Invoke (Call_createUser providerId providerData userFields),
                      Resolve (Ret_user user),
                      Invoke (Call_onAfterSignupHook req providerId user
                        \<lparr>accessToken = accessToken', uniqueRequestId = state oAuthState\<rparr>),
                      Reject e]\<rparr>)
       \<and> filter isCreateToken
           (calls (trace (snd (finishOAuthFlowAndGetRedirectUri env provider providerProfile
              providerUserId' userSignupFields req accessToken' oAuthState (start w0))))) = []
       \<and> issuedCodes (trace (snd (finishOAuthFlowAndGetRedirectUri env provider providerProfile
              providerUserId' userSignupFields req accessToken' oAuthState (start w0)))) = []"
  using look valid ser hook new after unfolding pid
  by (simp add: flow_defs Let_def)

theorem after_signup_failure_propagates_without_rollback_witness:
  "onAfterSignupHook memDeps ''/auth/google/callback'' gid9
       \<lparr>row = Suc 0, auth = \<lparr>id' = ''auth-gid-9''\<rparr>\<rparr>
       \<lparr>accessToken = ''ya29.tok'', uniqueRequestId = state \<lparr>state = ''s1''\<rparr>\<rparr>
       (mailerDownStore\<lparr>identities := [(gid9, ''auth-gid-9'')]\<rparr>)
     = (Inl (Error ''mail server down''), mailerDownStore\<lparr>identities := [(gid9, ''auth-gid-9'')]\<rparr>)
   \<and> fst (finishOAuthFlowAndGetRedirectUri memDeps google gid9Body ''gid-9'' None
          ''/auth/google/callback'' ''ya29.tok'' \<lparr>state = ''s1''\<rparr> (start mailerDownStore))
     = Inl (Error ''mail server down'')
   \<and> identities (world (snd (finishOAuthFlowAndGetRedirectUri memDeps google gid9Body ''gid-9''
          None ''/auth/google/callback'' ''ya29.tok'' \<lparr>state = ''s1''\<rparr> (start mailerDownStore))))
     = [(gid9, ''auth-gid-9'')]
   \<and> codes (world (snd (finishOAuthFlowAndGetRedirectUri memDeps google gid9Body ''gid-9''
          None ''/auth/google/callback'' ''ya29.tok'' \<lparr>state = ''s1''\<rparr> (start mailerDownStore))))
     = []"
proof -
  have fresh: "identities mailerDownStore = []"
    by (simp add: mailerDownStore_def)
  have after: "onAfterSignupHook memDeps ''/auth/google/callback'' gid9
       \<lparr>row = Suc 0, auth = \<lparr>id' = ''auth-gid-9''\<rparr>\<rparr>
       \<lparr>accessToken = ''ya29.tok'', uniqueRequestId = state \<lparr>state = ''s1''\<rparr>\<rparr>
       (mailerDownStore\<lparr>identities := [(gid9, ''auth-gid-9'')]\<rparr>)
     = (Inl (Error ''mail server down''), mailerDownStore\<lparr>identities := [(gid9, ''auth-gid-9'')]\<rparr>)"
    by (simp add: mem_after mailerDownStore_def)
  from after_signup_failure_propagates_without_rollback
         [OF mem_pid mem_look_fresh [OF fresh] mem_valid mem_ser mem_hook mem_new [OF fresh]
             after]
  show ?thesis
    using after by (simp add: mailerDownStore_def)
qed

text \<open>
  Claim C9. \<open>getGoogleProfile\<close> does with a body whose \<open>sub\<close> is the empty string what it
  does with the same body without \<open>sub\<close>: once the response is fetched it throws
  \<^verbatim>\<open>Error("Invalid profile")\<close>. So every \<open>providerUserId\<close> it returns is a non-empty
  string.
\<close>

theorem getGoogleProfile_empty_sub_like_missing:
  assumes "fetch ''https://openidconnect.googleapis.com/v1/userinfo''
             [(''Authorization'', ''Bearer '' @ accessToken')] = Inr response"
  shows "getGoogleProfile fetch (\<lambda>r. Inr (body\<lparr>sub := Some []\<rparr>)) accessToken'
           = Inl (Error ''Invalid profile'')
       \<and> getGoogleProfile fetch (\<lambda>r. Inr (body\<lparr>sub := Some []\<rparr>)) accessToken'
           = getGoogleProfile fetch (\<lambda>r. Inr (body\<lparr>sub := None\<rparr>)) accessToken'
       \<and> (\<forall>json providerProfile uid.
             getGoogleProfile fetch json accessToken' = Inr (providerProfile, uid) \<longrightarrow> uid \<noteq> [])"
  using assms
  by (auto simp: getGoogleProfile_def truthy_def split: sum.splits option.splits if_splits)

theorem getGoogleProfile_empty_sub_like_missing_witness:
  "respondWith gid9Body ''https://openidconnect.googleapis.com/v1/userinfo''
     [(''Authorization'', ''Bearer '' @ ''ya29.tok'')] = Inr gid9Body
   \<and> getGoogleProfile (respondWith gid9Body) (\<lambda>r. Inr (gid9Body\<lparr>sub := Some []\<rparr>)) ''ya29.tok''
       = Inl (Error ''Invalid profile'')
   \<and> getGoogleProfile (respondWith gid9Body) parsed ''ya29.tok'' = Inr (gid9Body, ''gid-9'')
   \<and> ''gid-9'' \<noteq> []"
proof -
  have f: "respondWith gid9Body ''https://openidconnect.googleapis.com/v1/userinfo''
             [(''Authorization'', ''Bearer '' @ ''ya29.tok'')] = Inr gid9Body"
    by (simp add: respondWith_def)
  have r: "getGoogleProfile (respondWith gid9Body) parsed ''ya29.tok'' = Inr (gid9Body, ''gid-9'')"
    by (simp add: getGoogleProfile_def respondWith_def parsed_def gid9Body_def truthy_def)
  from getGoogleProfile_empty_sub_like_missing
         [of "respondWith gid9Body" "''ya29.tok''" gid9Body gid9Body, OF f]
  have "getGoogleProfile (respondWith gid9Body) (\<lambda>r. Inr (gid9Body\<lparr>sub := Some []\<rparr>)) ''ya29.tok''
          = Inl (Error ''Invalid profile'')"
    and "\<forall>json providerProfile uid.
           getGoogleProfile (respondWith gid9Body) json ''ya29.tok'' = Inr (providerProfile, uid)
             \<longrightarrow> uid \<noteq> []"
    by blast+
  with f r show ?thesis
    by blast
qed

text \<open>
  Claim C10. On the login path, where the lookup \<open>findUnique\<close> finds an identity and, being
  a read, leaves the world as it was, \<open>getAuthIdFromProviderDetails\<close> calls no collaborator
  but \<open>findUnique\<close> and leaves the world as it was: no row is written.
\<close>

theorem login_path_performs_no_writes:
  assumes "findUnique env providerId w = (Inr (Some found), w)"
  shows "calls (trace (snd (getAuthIdFromProviderDetails env providerId providerProfile
            userSignupFields req accessToken' oAuthState (start w)))) = [Call_findUnique providerId]
       \<and> world (snd (getAuthIdFromProviderDetails env providerId providerProfile
            userSignupFields req accessToken' oAuthState (start w))) = w"
  using assms by (simp add: flow_defs)

theorem login_path_performs_no_writes_witness:
  "findUnique memDeps gid9 knownStore
     = (Inr (Some \<lparr>row = gid9, auth = \<lparr>id' = ''auth-1''\<rparr>\<rparr>), knownStore)
   \<and> world (snd (getAuthIdFromProviderDetails memDeps gid9 gid9Body None
        ''/auth/google/callback'' ''ya29.tok'' \<lparr>state = ''s1''\<rparr> (start knownStore))) = knownStore
   \<and> identities knownStore = [(gid9, ''auth-1'')]"
proof -
  have look: "findUnique memDeps gid9 knownStore
     = (Inr (Some \<lparr>row = gid9, auth = \<lparr>id' = ''auth-1''\<rparr>\<rparr>), knownStore)"
    by (simp add: mem_look knownStore_def)
  from login_path_performs_no_writes [OF look] look show ?thesis
    by (simp add: knownStore_def)
qed

end
